theory Spec2Isabelle
  imports Main "HOL-Library.Char_ord" "HOL-Library.List_Lexorder"
begin

section \<open>Exceptions\<close>

text \<open>
  The module declares \<^verbatim>\<open>ETLError(Exception)\<close>, \<^verbatim>\<open>ConfigError(ETLError)\<close> and
  \<^verbatim>\<open>DataError(ETLError)\<close>. The query collaborator raises its own exception
  (\<^verbatim>\<open>SnowparkSQLException\<close>), and indexing a Python sequence out of range raises
  \<^verbatim>\<open>IndexError\<close>. All of them derive from \<^verbatim>\<open>Exception\<close>, so every
  \<^verbatim>\<open>except Exception as e\<close> of the module catches each of them.

  An exception value carries its class, its message (what \<^verbatim>\<open>str(e)\<close> returns) and
  the cause set by \<^verbatim>\<open>raise ... from e\<close>.
\<close>

datatype exn_class = SnowparkSQLException | IndexError | ETLError | ConfigError | DataError

datatype exn = Exn exn_class string "exn option"

fun str :: "exn \<Rightarrow> string" where
  "str (Exn c m e) = m"

text \<open>
  \<^verbatim>\<open>try: body  except Exception as e: raise C(f"{prefix}{str(e)}") from e\<close>:
  a result passes through, any exception is replaced by one of class \<open>C\<close> whose message
  embeds the original message and whose cause is the original exception.
\<close>

definition except_raise_from :: "exn_class \<Rightarrow> string \<Rightarrow> exn + 'a \<Rightarrow> exn + 'a" where
  "except_raise_from c prefix body =
     (case body of
        Inl e \<Rightarrow> Inl (Exn c (prefix @ str e) (Some e))
      | Inr v \<Rightarrow> Inr v)"

section \<open>The tabular-query collaborator\<close>

text \<open>
  The module owns no data: every function calls into the Snowpark library
  (\<^verbatim>\<open>Session\<close>, \<^verbatim>\<open>DataFrame\<close>, \<^verbatim>\<open>functions\<close>), which runs SQL on the warehouse and is
  not part of the repository. This section models the part of it that the module calls,
  with the meaning the calls have in SQL: tables of rows, three-valued comparison with
  NULL, an aggregate that yields one row also on an empty input, and lazy DataFrames.

  A cell is SQL NULL (\<open>None\<close>, Python's \<^verbatim>\<open>None\<close> after \<^verbatim>\<open>collect\<close>) or a value. The
  module handles table names and timestamps as strings only, so a value is held as its
  text; the engine's comparison of a column with a string is the order \<open><\<close> on strings, a
  strict linear order. In a \<^verbatim>\<open>FLOAT\<close> or \<^verbatim>\<open>DOUBLE\<close> column the value that is not a
  number has the text \<^verbatim>\<open>NaN\<close>. A table has a schema, the name and the type descriptor
  of each column, and rows that list one cell per column. The session's state is the set
  of tables it can see, by fully qualified name.
\<close>

type_synonym cell = "string option"

type_synonym row = "cell list"

text \<open>The column type descriptors of the collaborator, by class.\<close>

datatype data_type =
    NullType | BinaryType | BooleanType | DateType | StringType
  | ByteType | ShortType | IntegerType | LongType | FloatType | DoubleType
  | DecimalType nat nat
  | TimestampType | TimeType | VariantType | GeographyType | GeometryType
  | ArrayType data_type
  | MapType data_type data_type
  | StructType "(string \<times> data_type) list"

record table =
  columns :: "string list"
  types :: "data_type list"
  rows :: "row list"

type_synonym session = "string \<rightharpoonup> table"

fun column_index :: "string list \<Rightarrow> string \<Rightarrow> nat option" where
  "column_index [] c = None"
| "column_index (x # xs) c = (if x = c then Some 0 else map_option Suc (column_index xs c))"

definition cell_at :: "row \<Rightarrow> nat \<Rightarrow> cell" where
  "cell_at r i = (if i < length r then r ! i else None)"

definition type_at :: "table \<Rightarrow> nat \<Rightarrow> data_type" where
  "type_at t i = (if i < length (types t) then types t ! i else NullType)"

text \<open>
  Column expressions built by the module: \<^verbatim>\<open>F.col(c) == v\<close> and \<^verbatim>\<open>F.col(c) > v\<close>.
  A comparison with NULL is unknown, and a filter keeps only the rows where the
  predicate is true.
\<close>

datatype column_expr = Col_eq string string | Col_gt string string

fun expr_column :: "column_expr \<Rightarrow> string" where
  "expr_column (Col_eq c v) = c"
| "expr_column (Col_gt c v) = c"

fun holds :: "column_expr \<Rightarrow> cell \<Rightarrow> bool" where
  "holds (Col_eq c v) x = (case x of None \<Rightarrow> False | Some a \<Rightarrow> a = v)"
| "holds (Col_gt c v) x = (case x of None \<Rightarrow> False | Some a \<Rightarrow> v < a)"

text \<open>
  A DataFrame is a lazy query: building one touches nothing, and each action
  (\<^verbatim>\<open>collect\<close>, \<^verbatim>\<open>count\<close>) evaluates it against the session's tables at that
  moment.
\<close>

datatype DataFrame =
    DF_table string
  | DF_filter DataFrame column_expr
  | DF_select DataFrame "string list"
  | DF_agg_max DataFrame string
  | DF_dropna_all DataFrame

definition sql_error :: "string \<Rightarrow> exn" where
  "sql_error m = Exn SnowparkSQLException m None"

text \<open>The maximum of a column ignores NULLs, and is NULL when no value is left.\<close>

fun max_cell :: "cell list \<Rightarrow> cell" where
  "max_cell [] = None"
| "max_cell (x # xs) =
     (case x of
        None \<Rightarrow> max_cell xs
      | Some a \<Rightarrow> (case max_cell xs of None \<Rightarrow> Some a | Some b \<Rightarrow> Some (max a b)))"

text \<open>
  \<^verbatim>\<open>dropna(how="all")\<close>, as the library computes it over all the columns of the
  DataFrame: a cell is missing when it is NULL, and in a column of type \<^verbatim>\<open>FloatType\<close>
  or \<^verbatim>\<open>DoubleType\<close> also when it is NaN; each row gets the number of its cells that
  are not missing, and the rows where that number reaches the threshold, one, are kept.
  A DataFrame without columns is returned as it is.
\<close>

fun is_float :: "data_type \<Rightarrow> bool" where
  "is_float FloatType = True"
| "is_float DoubleType = True"
| "is_float _ = False"

definition NaN :: string where
  "NaN = ''NaN''"

definition is_na :: "data_type \<Rightarrow> cell \<Rightarrow> bool" where
  "is_na d c = (c = None \<or> (is_float d \<and> c = Some NaN))"

definition col_counter :: "table \<Rightarrow> row \<Rightarrow> nat" where
  "col_counter t r =
     length (filter (\<lambda>i. \<not> is_na (type_at t i) (cell_at r i)) [0..<length (columns t)])"

definition dropna_all :: "table \<Rightarrow> row list" where
  "dropna_all t =
     (if columns t = [] then rows t
      else filter (\<lambda>r. 1 \<le> col_counter t r) (rows t))"

fun run :: "session \<Rightarrow> DataFrame \<Rightarrow> exn + table" where
  "run s (DF_table n) =
     (case s n of
        None \<Rightarrow> Inl (sql_error (''Object '' @ n @ '' does not exist or not authorized.''))
      | Some t \<Rightarrow> Inr t)"
| "run s (DF_filter df e) =
     (case run s df of
        Inl x \<Rightarrow> Inl x
      | Inr t \<Rightarrow>
          (case column_index (columns t) (expr_column e) of
             None \<Rightarrow> Inl (sql_error (''invalid identifier '' @ expr_column e))
           | Some i \<Rightarrow> Inr (t\<lparr>rows := filter (\<lambda>r. holds e (cell_at r i)) (rows t)\<rparr>)))"
| "run s (DF_select df cs) =
     (case run s df of
        Inl x \<Rightarrow> Inl x
      | Inr t \<Rightarrow>
          (case those (map (column_index (columns t)) cs) of
             None \<Rightarrow> Inl (sql_error (''invalid identifier in '' @ concat cs))
           | Some ixs \<Rightarrow>
               Inr \<lparr>columns = cs, types = map (type_at t) ixs,
                    rows = map (\<lambda>r. map (cell_at r) ixs) (rows t)\<rparr>))"
| "run s (DF_agg_max df c) =
     (case run s df of
        Inl x \<Rightarrow> Inl x
      | Inr t \<Rightarrow>
          (case column_index (columns t) c of
             None \<Rightarrow> Inl (sql_error (''invalid identifier '' @ c))
           | Some i \<Rightarrow>
               Inr \<lparr>columns = [''MAX('' @ c @ '')''], types = [type_at t i],
                    rows = [[max_cell (map (\<lambda>r. cell_at r i) (rows t))]]\<rparr>))"
| "run s (DF_dropna_all df) =
     (case run s df of
        Inl x \<Rightarrow> Inl x
      | Inr t \<Rightarrow> Inr (t\<lparr>rows := dropna_all t\<rparr>))"

text \<open>
  The actions. Each returns its outcome and the session's state after it; a query
  leaves the tables as they were.
\<close>

definition collect :: "session \<Rightarrow> DataFrame \<Rightarrow> (exn + row list) \<times> session" where
  "collect s df = (case run s df of Inl e \<Rightarrow> (Inl e, s) | Inr t \<Rightarrow> (Inr (rows t), s))"

definition count :: "session \<Rightarrow> DataFrame \<Rightarrow> (exn + nat) \<times> session" where
  "count s df = (case run s df of Inl e \<Rightarrow> (Inl e, s) | Inr t \<Rightarrow> (Inr (length (rows t)), s))"

text \<open>Python's \<^verbatim>\<open>xs[i]\<close> on a list of rows and on a row.\<close>

definition list_getitem :: "'a list \<Rightarrow> nat \<Rightarrow> exn + 'a" where
  "list_getitem xs i =
     (if i < length xs then Inr (xs ! i)
      else Inl (Exn IndexError ''list index out of range'' None))"

definition row_getitem :: "row \<Rightarrow> nat \<Rightarrow> exn + cell" where
  "row_getitem r i =
     (if i < length r then Inr (r ! i)
      else Inl (Exn IndexError ''tuple index out of range'' None))"

section \<open>The module\<close>

definition CONFIG_TABLE :: string where
  "CONFIG_TABLE = ''UTILS.CONFIG.DEV_CONFIG_TABLES''"

definition TIMESTAMP_FIELD :: string where
  "TIMESTAMP_FIELD = ''current_timestamp''"

subsection \<open>find_delta\<close>

definition find_delta ::
  "session \<Rightarrow> string \<Rightarrow> string \<Rightarrow> (exn + DataFrame \<times> nat) \<times> session" where
  "find_delta session table_name last_update =
     (let df = DF_filter (DF_table table_name) (Col_gt TIMESTAMP_FIELD last_update)
      in case count session df of
           (r, session') \<Rightarrow>
             (except_raise_from DataError
                (''Failed to find delta records for '' @ table_name @ '': '')
                (case r of
                   Inl e \<Rightarrow> Inl e
                 | Inr delta_count \<Rightarrow> Inr (df, delta_count)),
              session'))"

subsection \<open>find_last_update_date\<close>

definition find_last_update_date :: "session \<Rightarrow> string \<Rightarrow> (exn + cell) \<times> session" where
  "find_last_update_date session table_name =
     (case collect session
             (DF_select
                (DF_filter (DF_table CONFIG_TABLE) (Col_eq ''table_name'' table_name))
                [''silver_last_update'']) of
        (r, session') \<Rightarrow>
          (except_raise_from ConfigError
             (''Failed to retrieve last update date for '' @ table_name @ '': '')
             (case r of
                Inl e \<Rightarrow> Inl e
              | Inr result \<Rightarrow>
                  if result = [] then
                    Inl (Exn ConfigError (''No configuration found for table '' @ table_name) None)
                  else
                    (case list_getitem result 0 of
                       Inl e \<Rightarrow> Inl e
                     | Inr r0 \<Rightarrow> row_getitem r0 0)),
           session'))"

subsection \<open>find_latest_timestamp\<close>

text \<open>
  The function takes a DataFrame only; the DataFrame belongs to a session, whose tables
  the action reads. The model passes that session along.
\<close>

definition find_latest_timestamp :: "session \<Rightarrow> DataFrame \<Rightarrow> (exn + cell) \<times> session" where
  "find_latest_timestamp session df =
     (case collect session (DF_agg_max df TIMESTAMP_FIELD) of
        (r, session') \<Rightarrow>
          (except_raise_from DataError ''Failed to find latest timestamp: ''
             (case r of
                Inl e \<Rightarrow> Inl e
              | Inr result \<Rightarrow>
                  (case list_getitem result 0 of
                     Inl e \<Rightarrow> Inl e
                   | Inr r0 \<Rightarrow> row_getitem r0 0)),
           session'))"

subsection \<open>remove_null_rows\<close>

definition remove_null_rows ::
  "session \<Rightarrow> DataFrame \<Rightarrow> (exn + DataFrame \<times> int) \<times> session" where
  "remove_null_rows session delta_df =
     (case count session delta_df of
        (r1, session1) \<Rightarrow>
          (case r1 of
             Inl e \<Rightarrow> (except_raise_from DataError ''Failed to remove null rows: '' (Inl e), session1)
           | Inr initial_count \<Rightarrow>
               (let cleaned_df = DF_dropna_all delta_df
                in case count session1 cleaned_df of
                     (r2, session2) \<Rightarrow>
                       (except_raise_from DataError ''Failed to remove null rows: ''
                          (case r2 of
                             Inl e \<Rightarrow> Inl e
                           | Inr final_count \<Rightarrow>
                               Inr (cleaned_df, int initial_count - int final_count)),
                        session2))))"

subsection \<open>is_simple_type\<close>

text \<open>
  The module imports three of the descriptor classes, \<^verbatim>\<open>MapType\<close>, \<^verbatim>\<open>ArrayType\<close>
  and \<^verbatim>\<open>StructType\<close>; the argument is not annotated, so any other object is a
  descriptor of another class.
\<close>

datatype py_class = C_MapType | C_ArrayType | C_StructType | C_other

fun type_of :: "data_type \<Rightarrow> py_class" where
  "type_of (MapType k v) = C_MapType"
| "type_of (ArrayType e) = C_ArrayType"
| "type_of (StructType fs) = C_StructType"
| "type_of _ = C_other"

definition isinstance :: "data_type \<Rightarrow> py_class list \<Rightarrow> bool" where
  "isinstance x cs = (type_of x \<in> set cs)"

definition is_simple_type :: "data_type \<Rightarrow> bool" where
  "is_simple_type data_type = (\<not> isinstance data_type [C_MapType, C_ArrayType, C_StructType])"

subsection \<open>SQL given as text\<close>

text \<open>
  \<^verbatim>\<open>session.sql(text).collect()\<close> hands the engine a statement as text. The part of
  the engine's language modelled here is the single-table update
  \<^verbatim>\<open>UPDATE t SET c = e WHERE d = e'\<close>, where an expression concatenates string
  literals and column references with \<^verbatim>\<open>||\<close>. Inside a literal a doubled quote
  stands for one quote; backslash escapes are left out, and a text outside this part is
  a compilation error. Names are compared as written.
\<close>

definition quote :: char where
  "quote = CHR 0x27"

definition backslash :: char where
  "backslash = CHR 0x5C"

definition is_space :: "char \<Rightarrow> bool" where
  "is_space c = (c = CHR '' '' \<or> c = CHR 0x0A \<or> c = CHR 0x09 \<or> c = CHR 0x0D)"

definition is_ident_char :: "char \<Rightarrow> bool" where
  "is_ident_char c =
     (let n = (of_char c :: nat)
      in (65 \<le> n \<and> n \<le> 90) \<or> (97 \<le> n \<and> n \<le> 122) \<or> (48 \<le> n \<and> n \<le> 57)
         \<or> c = CHR ''_'' \<or> c = CHR ''.'' \<or> c = CHR ''$'')"

datatype token = T_ident string | T_string string | T_eq | T_concat

datatype lex_state = L_start | L_ident string | L_string string | L_quote string | L_bar

text \<open>
  \<open>L_quote w\<close>: a quote was read inside a literal whose text so far is \<open>w\<close>; it closes
  the literal unless another quote follows at once.
\<close>

definition lex_start :: "char \<Rightarrow> (lex_state \<times> token list) option" where
  "lex_start c =
     (if is_space c then Some (L_start, [])
      else if c = quote then Some (L_string [], [])
      else if c = CHR ''='' then Some (L_start, [T_eq])
      else if c = CHR ''|'' then Some (L_bar, [])
      else if is_ident_char c then Some (L_ident [c], [])
      else None)"

fun lex_from :: "lex_state \<Rightarrow> string \<Rightarrow> token list option" where
  "lex_from L_start [] = Some []"
| "lex_from (L_ident w) [] = Some [T_ident w]"
| "lex_from (L_string w) [] = None"
| "lex_from (L_quote w) [] = Some [T_string w]"
| "lex_from L_bar [] = None"
| "lex_from L_start (c # cs) =
     (case lex_start c of
        None \<Rightarrow> None
      | Some (st, ts) \<Rightarrow> map_option (\<lambda>r. ts @ r) (lex_from st cs))"
| "lex_from (L_ident w) (c # cs) =
     (if is_ident_char c then lex_from (L_ident (w @ [c])) cs
      else (case lex_start c of
              None \<Rightarrow> None
            | Some (st, ts) \<Rightarrow> map_option (\<lambda>r. T_ident w # ts @ r) (lex_from st cs)))"
| "lex_from (L_string w) (c # cs) =
     (if c = quote then lex_from (L_quote w) cs
      else if c = backslash then None
      else lex_from (L_string (w @ [c])) cs)"
| "lex_from (L_quote w) (c # cs) =
     (if c = quote then lex_from (L_string (w @ [quote])) cs
      else (case lex_start c of
              None \<Rightarrow> None
            | Some (st, ts) \<Rightarrow> map_option (\<lambda>r. T_string w # ts @ r) (lex_from st cs)))"
| "lex_from L_bar (c # cs) =
     (if c = CHR ''|'' then map_option (\<lambda>r. T_concat # r) (lex_from L_start cs) else None)"

definition lex :: "string \<Rightarrow> token list option" where
  "lex text = lex_from L_start text"

datatype sql_term = Lit string | Ref string

datatype statement = Update string string "sql_term list" string "sql_term list"

definition reserved_words :: "string list" where
  "reserved_words = [''UPDATE'', ''SET'', ''WHERE'']"

fun parse_term :: "token \<Rightarrow> sql_term option" where
  "parse_term (T_string v) = Some (Lit v)"
| "parse_term (T_ident w) = (if w \<in> set reserved_words then None else Some (Ref w))"
| "parse_term T_eq = None"
| "parse_term T_concat = None"

fun parse_expr :: "token list \<Rightarrow> (sql_term list \<times> token list) option" where
  "parse_expr [] = None"
| "parse_expr (t # T_concat # ts) =
     (case parse_term t of
        None \<Rightarrow> None
      | Some a \<Rightarrow>
          (case parse_expr ts of
             None \<Rightarrow> None
           | Some (e, rest) \<Rightarrow> Some (a # e, rest)))"
| "parse_expr (t # ts) =
     (case parse_term t of
        None \<Rightarrow> None
      | Some a \<Rightarrow> Some ([a], ts))"

fun parse_where :: "string \<Rightarrow> string \<Rightarrow> sql_term list \<Rightarrow> token list \<Rightarrow> statement option" where
  "parse_where tbl c e (T_ident w # T_ident d # T_eq # ts) =
     (if w = ''WHERE'' then
        (case parse_expr ts of
           None \<Rightarrow> None
         | Some (e', rest) \<Rightarrow> if rest = [] then Some (Update tbl c e d e') else None)
      else None)"
| "parse_where tbl c e _ = None"

fun parse_update :: "token list \<Rightarrow> statement option" where
  "parse_update (T_ident u # T_ident tbl # T_ident s # T_ident c # T_eq # ts) =
     (if u = ''UPDATE'' \<and> s = ''SET'' then
        (case parse_expr ts of
           None \<Rightarrow> None
         | Some (e, rest) \<Rightarrow> parse_where tbl c e rest)
      else None)"
| "parse_update _ = None"

text \<open>
  Evaluation of an expression on a row: a column reference reads the row's cell, and a
  concatenation with NULL is NULL.
\<close>

fun term_resolves :: "string list \<Rightarrow> sql_term \<Rightarrow> bool" where
  "term_resolves cols (Lit v) = True"
| "term_resolves cols (Ref c) = (column_index cols c \<noteq> None)"

fun eval_term :: "string list \<Rightarrow> row \<Rightarrow> sql_term \<Rightarrow> cell" where
  "eval_term cols r (Lit v) = Some v"
| "eval_term cols r (Ref c) =
     (case column_index cols c of None \<Rightarrow> None | Some i \<Rightarrow> cell_at r i)"

fun eval_expr :: "string list \<Rightarrow> row \<Rightarrow> sql_term list \<Rightarrow> cell" where
  "eval_expr cols r [] = Some []"
| "eval_expr cols r (a # e) =
     (case eval_term cols r a of
        None \<Rightarrow> None
      | Some x \<Rightarrow> (case eval_expr cols r e of None \<Rightarrow> None | Some y \<Rightarrow> Some (x @ y)))"

definition matches :: "string list \<Rightarrow> nat \<Rightarrow> sql_term list \<Rightarrow> row \<Rightarrow> bool" where
  "matches cols j e' r =
     (case cell_at r j of
        None \<Rightarrow> False
      | Some a \<Rightarrow> (case eval_expr cols r e' of None \<Rightarrow> False | Some b \<Rightarrow> a = b))"

text \<open>
  Running an update: the outcome is the number of rows the condition selected, and the
  table holds the new value in the set column of exactly those rows. A statement that does
  not compile changes nothing.
\<close>

fun execute :: "session \<Rightarrow> statement \<Rightarrow> (exn + nat) \<times> session" where
  "execute s (Update tbl c e d e') =
     (case s tbl of
        None \<Rightarrow> (Inl (sql_error (''Object '' @ tbl @ '' does not exist or not authorized.'')), s)
      | Some t \<Rightarrow>
          (case column_index (columns t) c of
             None \<Rightarrow> (Inl (sql_error (''invalid identifier '' @ c)), s)
           | Some i \<Rightarrow>
               (case column_index (columns t) d of
                  None \<Rightarrow> (Inl (sql_error (''invalid identifier '' @ d)), s)
                | Some j \<Rightarrow>
                    if list_all (term_resolves (columns t)) (e @ e') then
                      (Inr (length (filter (matches (columns t) j e') (rows t))),
                       s(tbl \<mapsto> t\<lparr>rows :=
                           map (\<lambda>r. if matches (columns t) j e' r
                                     then r[i := eval_expr (columns t) r e] else r)
                             (rows t)\<rparr>))
                    else (Inl (sql_error ''invalid identifier in expression''), s))))"

definition sql_collect :: "session \<Rightarrow> string \<Rightarrow> (exn + nat) \<times> session" where
  "sql_collect s text =
     (case lex text of
        None \<Rightarrow> (Inl (sql_error ''SQL compilation error''), s)
      | Some ts \<Rightarrow>
          (case parse_update ts of
             None \<Rightarrow> (Inl (sql_error ''SQL compilation error''), s)
           | Some st \<Rightarrow> execute s st))"

subsection \<open>update_config\<close>

text \<open>
  The statement text of the f-string: both values are pasted between quotes, as they
  are.
\<close>

definition update_text :: "string \<Rightarrow> string \<Rightarrow> string" where
  "update_text table_name latest_timestamp =
     [CHR 0x0A] @ ''            UPDATE '' @ CONFIG_TABLE @
     [CHR 0x0A] @ ''            SET silver_last_update = '' @ [quote] @ latest_timestamp @ [quote] @
     [CHR 0x0A] @ ''            WHERE table_name = '' @ [quote] @ table_name @ [quote] @
     [CHR 0x0A] @ ''        ''"

definition update_config :: "session \<Rightarrow> string \<Rightarrow> string \<Rightarrow> (exn + unit) \<times> session" where
  "update_config session table_name latest_timestamp =
     (case sql_collect session (update_text table_name latest_timestamp) of
        (r, session') \<Rightarrow>
          (except_raise_from ConfigError
             (''Failed to update configuration for '' @ table_name @ '': '')
             (case r of Inl e \<Rightarrow> Inl e | Inr n \<Rightarrow> Inr ()),
           session'))"

section \<open>Vocabulary of the properties\<close>

text \<open>
  The Configuration Records of a table name: the rows of the configuration store whose
  \<^verbatim>\<open>table_name\<close> cell holds that name. A store that is missing, or has no such
  column, holds none.
\<close>

definition config_records :: "session \<Rightarrow> string \<Rightarrow> row list" where
  "config_records s table_name =
     (case s CONFIG_TABLE of
        None \<Rightarrow> []
      | Some t \<Rightarrow>
          (case column_index (columns t) ''table_name'' of
             None \<Rightarrow> []
           | Some j \<Rightarrow> filter (\<lambda>r. cell_at r j = Some table_name) (rows t)))"

text \<open>A table holds no NaN when no cell of a floating-point column is NaN.\<close>

definition no_nan :: "table \<Rightarrow> bool" where
  "no_nan t =
     list_all
       (\<lambda>r. list_all (\<lambda>i. \<not> (is_float (type_at t i) \<and> cell_at r i = Some NaN))
              [0..<length (columns t)])
       (rows t)"

text \<open>A value is plain when it holds no quote and no backslash.\<close>

definition plain :: "string \<Rightarrow> bool" where
  "plain v = (quote \<notin> set v \<and> backslash \<notin> set v)"

text \<open>
  What an update with a literal value and a literal key does to one row: column \<open>i\<close>
  becomes \<open>v\<close> where column \<open>j\<close> holds \<open>k\<close>.
\<close>

definition set_where :: "nat \<Rightarrow> string \<Rightarrow> nat \<Rightarrow> string \<Rightarrow> row \<Rightarrow> row" where
  "set_where i v j k r = (if cell_at r j = Some k then r[i := Some v] else r)"

subsection \<open>A session to run the module on\<close>

text \<open>
  One Configuration Record, for \<^verbatim>\<open>ORDERS\<close>; a source table of five rows; a staging
  table with rows that are NULL in every column and one that is NULL in part; and a
  store in which \<^verbatim>\<open>ORDERS\<close> was configured twice.
\<close>

definition example_config :: table where
  "example_config =
     \<lparr>columns = [''table_name'', ''silver_last_update''], types = [StringType, StringType],
      rows = [[Some ''ORDERS'', Some ''2024-01-01T00:00:00'']]\<rparr>"

definition example_orders :: table where
  "example_orders =
     \<lparr>columns = [''order_id'', ''current_timestamp''], types = [LongType, TimestampType],
      rows = [[Some ''1'', Some ''2023-12-31''],
              [Some ''2'', Some ''2024-01-01''],
              [Some ''3'', Some ''2024-01-02''],
              [Some ''4'', Some ''2024-01-03''],
              [Some ''5'', Some ''2024-01-03'']]\<rparr>"

definition example_staging :: table where
  "example_staging =
     \<lparr>columns = [''order_id'', ''current_timestamp''], types = [LongType, TimestampType],
      rows = [[None, None], [Some ''7'', None], [None, None]]\<rparr>"

definition example_session :: session where
  "example_session =
     [CONFIG_TABLE \<mapsto> example_config, ''ORDERS'' \<mapsto> example_orders,
      ''STAGING'' \<mapsto> example_staging]"

definition duplicated_config :: table where
  "duplicated_config =
     \<lparr>columns = [''table_name'', ''silver_last_update''], types = [StringType, StringType],
      rows = [[Some ''ORDERS'', Some ''2024-01-01T00:00:00''],
              [Some ''CUSTOMERS'', Some ''2024-03-03T00:00:00''],
              [Some ''ORDERS'', Some ''2024-02-02T00:00:00'']]\<rparr>"

definition duplicated_session :: session where
  "duplicated_session = [CONFIG_TABLE \<mapsto> duplicated_config]"

text \<open>
  A table of sensor readings with a \<^verbatim>\<open>DOUBLE\<close> column: the first row holds NaN and
  nothing else, the second is NULL throughout, the third names its sensor.
\<close>

definition example_readings :: table where
  "example_readings =
     \<lparr>columns = [''sensor'', ''reading''], types = [StringType, DoubleType],
      rows = [[None, Some ''NaN''], [None, None], [Some ''s1'', Some ''NaN'']]\<rparr>"

definition readings_session :: session where
  "readings_session = [''READINGS'' \<mapsto> example_readings]"

section \<open>Properties\<close>

declare execute.simps [simp del]

lemmas example_simps =
  example_session_def example_config_def example_orders_def example_staging_def
  duplicated_session_def duplicated_config_def CONFIG_TABLE_def TIMESTAMP_FIELD_def cell_at_def
  type_at_def

lemmas lex_simps = lex_start_def is_space_def is_ident_char_def quote_def backslash_def

subsection \<open>Filters\<close>

lemma type_at_rows: "type_at (t\<lparr>rows := rs\<rparr>) i = type_at t i"
  by (simp add: type_at_def)

lemma holds_eq: "holds (Col_eq c v) x = (x = Some v)"
  by (cases x) auto

lemma holds_gt: "holds (Col_gt c v) x = (\<exists>a. x = Some a \<and> v < a)"
  by (cases x) auto

subsection \<open>The Delta Fetcher\<close>

text \<open>
  Claim C1. For a source table \<open>T\<close> that the session holds and that has the
  \<^verbatim>\<open>current_timestamp\<close> column, and for every watermark \<open>W\<close>, \<open>find_delta\<close>
  returns the lazy filtered view and a count equal to the number of rows of \<open>T\<close> whose
  \<^verbatim>\<open>current_timestamp\<close> is a value strictly above \<open>W\<close>; the view evaluates to exactly
  those rows, and none of them has a timestamp equal to \<open>W\<close>. The session is left as it
  was.
\<close>

theorem find_delta_counts_newer_rows:
  assumes "s T = Some t" and "column_index (columns t) TIMESTAMP_FIELD = Some i"
  shows "find_delta s T W =
           (Inr (DF_filter (DF_table T) (Col_gt TIMESTAMP_FIELD W),
                 length (filter (\<lambda>r. \<exists>v. cell_at r i = Some v \<and> W < v) (rows t))), s)
         \<and> run s (DF_filter (DF_table T) (Col_gt TIMESTAMP_FIELD W)) =
             Inr (t\<lparr>rows := filter (\<lambda>r. \<exists>v. cell_at r i = Some v \<and> W < v) (rows t)\<rparr>)
         \<and> filter (\<lambda>r. cell_at r i = Some W)
              (filter (\<lambda>r. \<exists>v. cell_at r i = Some v \<and> W < v) (rows t)) = []"
  using assms
  by (auto simp add: find_delta_def count_def except_raise_from_def holds_gt Let_def
        filter_empty_conv simp del: holds.simps)

theorem find_delta_counts_newer_rows_witness:
  "example_session ''ORDERS'' = Some example_orders
   \<and> column_index (columns example_orders) TIMESTAMP_FIELD = Some 1
   \<and> find_delta example_session ''ORDERS'' ''2024-01-01'' =
       (Inr (DF_filter (DF_table ''ORDERS'') (Col_gt TIMESTAMP_FIELD ''2024-01-01''), 3),
        example_session)"
proof -
  have t: "example_session ''ORDERS'' = Some example_orders"
    by (simp add: example_session_def CONFIG_TABLE_def)
  have c: "column_index (columns example_orders) TIMESTAMP_FIELD = Some 1"
    by (simp add: example_orders_def TIMESTAMP_FIELD_def)
  have n: "length (filter (\<lambda>r. \<exists>v. cell_at r 1 = Some v \<and> ''2024-01-01'' < v)
             (rows example_orders)) = 3"
    by (simp add: example_orders_def cell_at_def)
  from find_delta_counts_newer_rows [of example_session "''ORDERS''" example_orders 1
      "''2024-01-01''", OF t c]
  show ?thesis by (simp only: t c n simp_thms)
qed

subsection \<open>The Timestamp Extractor\<close>

text \<open>
  Claim C2. On an empty result set the extractor is to fail with \<open>DataError\<close> and never
  to return a null value. The code does not do so. The delta of \<^verbatim>\<open>ORDERS\<close> above its
  latest timestamp has no rows; the aggregate over it is one row holding NULL, the
  indexing \<^verbatim>\<open>[0][0]\<close> succeeds, and \<open>find_latest_timestamp\<close> returns \<^verbatim>\<open>None\<close> with no
  error, where its signature announces a string.
\<close>

theorem find_latest_timestamp_empty_returns_None:
  "run example_session (DF_filter (DF_table ''ORDERS'') (Col_gt TIMESTAMP_FIELD ''2024-01-03'')) =
     Inr \<lparr>columns = [''order_id'', ''current_timestamp''], types = [LongType, TimestampType],
          rows = []\<rparr>
   \<and> find_latest_timestamp example_session
         (DF_filter (DF_table ''ORDERS'') (Col_gt TIMESTAMP_FIELD ''2024-01-03'')) =
       (Inr None, example_session)"
  by (simp add: find_latest_timestamp_def collect_def except_raise_from_def
        list_getitem_def row_getitem_def example_simps)

subsection \<open>The Watermark Reader\<close>

lemma run_lookup:
  assumes "s CONFIG_TABLE = Some t"
    and "column_index (columns t) ''table_name'' = Some j"
    and "column_index (columns t) ''silver_last_update'' = Some i"
  shows "run s (DF_select (DF_filter (DF_table CONFIG_TABLE) (Col_eq ''table_name'' tn))
                 [''silver_last_update'']) =
         Inr \<lparr>columns = [''silver_last_update''], types = [type_at t i],
              rows = map (\<lambda>r. [cell_at r i]) (config_records s tn)\<rparr>"
  using assms by (simp add: config_records_def holds_eq type_at_rows del: holds.simps)

lemma run_lookup_cases:
  "(\<exists>e. run s (DF_select (DF_filter (DF_table CONFIG_TABLE) (Col_eq ''table_name'' tn))
                 [''silver_last_update'']) = Inl e) \<or>
   (\<exists>t i j. s CONFIG_TABLE = Some t \<and> column_index (columns t) ''table_name'' = Some j \<and>
       column_index (columns t) ''silver_last_update'' = Some i)"
  by (auto split: option.splits)

lemma find_last_update_date_first:
  assumes "s CONFIG_TABLE = Some t"
    and "column_index (columns t) ''table_name'' = Some j"
    and "column_index (columns t) ''silver_last_update'' = Some i"
    and "config_records s tn = r # rs"
  shows "find_last_update_date s tn = (Inr (cell_at r i), s)"
  using assms(4) run_lookup [of s t j i tn, OF assms(1) assms(2) assms(3)]
  by (simp add: find_last_update_date_def collect_def except_raise_from_def
        list_getitem_def row_getitem_def)

lemma find_last_update_date_empty_result:
  assumes "fst (collect s (DF_select (DF_filter (DF_table CONFIG_TABLE)
                                 (Col_eq ''table_name'' tn)) [''silver_last_update''])) = Inr []"
  shows "find_last_update_date s tn =
           (Inl (Exn ConfigError
                  (''Failed to retrieve last update date for '' @ tn @
                   '': No configuration found for table '' @ tn)
                  (Some (Exn ConfigError (''No configuration found for table '' @ tn) None))),
            s)"
  using assms
  by (auto simp add: find_last_update_date_def collect_def except_raise_from_def
        split: sum.splits)

lemma find_last_update_date_lookup_fails:
  assumes "fst (collect s (DF_select (DF_filter (DF_table CONFIG_TABLE)
                                 (Col_eq ''table_name'' tn)) [''silver_last_update''])) = Inl e0"
  shows "find_last_update_date s tn =
           (Inl (Exn ConfigError
                  (''Failed to retrieve last update date for '' @ tn @ '': '' @ str e0)
                  (Some e0)), s)"
  using assms
  by (auto simp add: find_last_update_date_def collect_def except_raise_from_def
        split: sum.splits)

lemma example_config_records:
  "config_records example_session ''ORDERS'' = [[Some ''ORDERS'', Some ''2024-01-01T00:00:00'']]"
  "config_records example_session ''CUSTOMERS'' = []"
  "config_records duplicated_session ''ORDERS'' =
     [[Some ''ORDERS'', Some ''2024-01-01T00:00:00''],
      [Some ''ORDERS'', Some ''2024-02-02T00:00:00'']]"
  by (simp_all add: config_records_def example_simps)

lemma example_config_table:
  "example_session CONFIG_TABLE = Some example_config"
  "duplicated_session CONFIG_TABLE = Some duplicated_config"
  "column_index (columns example_config) ''table_name'' = Some 0"
  "column_index (columns example_config) ''silver_last_update'' = Some 1"
  "column_index (columns duplicated_config) ''table_name'' = Some 0"
  "column_index (columns duplicated_config) ''silver_last_update'' = Some 1"
  by (simp_all add: example_session_def duplicated_session_def example_config_def
        duplicated_config_def CONFIG_TABLE_def)

text \<open>
  Claim C3. When the store holds no Configuration Record for a table name (the store may
  also be missing altogether), \<open>find_last_update_date\<close> returns no value: its outcome is
  a \<open>ConfigError\<close>. And whatever exception the lookup itself raises comes back as a
  \<open>ConfigError\<close> whose cause is that exception and whose message embeds its message.
\<close>

theorem find_last_update_date_not_found:
  "(config_records s tn = [] \<longrightarrow>
      (\<exists>m c. find_last_update_date s tn = (Inl (Exn ConfigError m c), s)))
   \<and> (\<forall>e0. fst (collect s (DF_select (DF_filter (DF_table CONFIG_TABLE)
                                 (Col_eq ''table_name'' tn)) [''silver_last_update''])) = Inl e0 \<longrightarrow>
         find_last_update_date s tn =
           (Inl (Exn ConfigError
                  (''Failed to retrieve last update date for '' @ tn @ '': '' @ str e0)
                  (Some e0)), s))"
proof (intro conjI impI allI)
  assume none: "config_records s tn = []"
  let ?q = "DF_select (DF_filter (DF_table CONFIG_TABLE) (Col_eq ''table_name'' tn))
              [''silver_last_update'']"
  from run_lookup_cases [of s tn]
  show "\<exists>m c. find_last_update_date s tn = (Inl (Exn ConfigError m c), s)"
  proof
    assume "\<exists>e. run s ?q = Inl e"
    then obtain e where "run s ?q = Inl e" ..
    then have "fst (collect s ?q) = Inl e"
      by (simp add: collect_def)
    from find_last_update_date_lookup_fails [OF this] show ?thesis
      by blast
  next
    assume "\<exists>t i j. s CONFIG_TABLE = Some t \<and> column_index (columns t) ''table_name'' = Some j \<and>
       column_index (columns t) ''silver_last_update'' = Some i"
    then obtain t i j where st: "s CONFIG_TABLE = Some t"
      and cj: "column_index (columns t) ''table_name'' = Some j"
      and ci: "column_index (columns t) ''silver_last_update'' = Some i"
      by blast
    from run_lookup [of s t j i tn, OF st cj ci] none
    have "fst (collect s ?q) = Inr []"
      by (simp add: collect_def)
    from find_last_update_date_empty_result [OF this] show ?thesis
      by blast
  qed
next
  fix e0
  assume "fst (collect s (DF_select (DF_filter (DF_table CONFIG_TABLE)
                                 (Col_eq ''table_name'' tn)) [''silver_last_update''])) = Inl e0"
  from find_last_update_date_lookup_fails [OF this]
  show "find_last_update_date s tn =
           (Inl (Exn ConfigError
                  (''Failed to retrieve last update date for '' @ tn @ '': '' @ str e0)
                  (Some e0)), s)" .
qed

text \<open>
  No record for \<^verbatim>\<open>CUSTOMERS\<close> in the example store; and a session without the
  store, where the lookup itself fails.
\<close>

theorem find_last_update_date_not_found_witness:
  "config_records example_session ''CUSTOMERS'' = []
   \<and> (\<exists>m c. find_last_update_date example_session ''CUSTOMERS'' =
               (Inl (Exn ConfigError m c), example_session))
   \<and> fst (collect Map.empty (DF_select (DF_filter (DF_table CONFIG_TABLE)
                                 (Col_eq ''table_name'' ''ORDERS'')) [''silver_last_update''])) =
       Inl (sql_error ''Object UTILS.CONFIG.DEV_CONFIG_TABLES does not exist or not authorized.'')
   \<and> find_last_update_date Map.empty ''ORDERS'' =
       (Inl (Exn ConfigError
              (''Failed to retrieve last update date for ORDERS: '' @
               ''Object UTILS.CONFIG.DEV_CONFIG_TABLES does not exist or not authorized.'')
              (Some (sql_error
                 ''Object UTILS.CONFIG.DEV_CONFIG_TABLES does not exist or not authorized.''))),
        Map.empty)"
proof -
  have f: "fst (collect Map.empty (DF_select (DF_filter (DF_table CONFIG_TABLE)
                                 (Col_eq ''table_name'' ''ORDERS'')) [''silver_last_update''])) =
       Inl (sql_error ''Object UTILS.CONFIG.DEV_CONFIG_TABLES does not exist or not authorized.'')"
    by (simp add: collect_def CONFIG_TABLE_def)
  from find_last_update_date_not_found [of example_session "''CUSTOMERS''"]
  have a: "\<exists>m c. find_last_update_date example_session ''CUSTOMERS'' =
               (Inl (Exn ConfigError m c), example_session)"
    by (simp only: example_config_records simp_thms)
  from find_last_update_date_not_found [of Map.empty "''ORDERS''"] f
  have b: "find_last_update_date Map.empty ''ORDERS'' =
       (Inl (Exn ConfigError
              (''Failed to retrieve last update date for ORDERS: '' @
               ''Object UTILS.CONFIG.DEV_CONFIG_TABLES does not exist or not authorized.'')
              (Some (sql_error
                 ''Object UTILS.CONFIG.DEV_CONFIG_TABLES does not exist or not authorized.''))),
        Map.empty)"
    by (simp add: sql_error_def)
  from a b f show ?thesis
    by (simp only: example_config_records simp_thms)
qed

text \<open>
  Claim C4. When the store holds exactly one Configuration Record for the table name,
  \<open>find_last_update_date\<close> returns that record's \<^verbatim>\<open>silver_last_update\<close> cell, and the
  session it leaves is the session it was given.
\<close>

theorem find_last_update_date_single:
  assumes "s CONFIG_TABLE = Some t"
    and "column_index (columns t) ''table_name'' = Some j"
    and "column_index (columns t) ''silver_last_update'' = Some i"
    and "config_records s tn = [r]"
  shows "find_last_update_date s tn = (Inr (cell_at r i), s)"
  using assms by (rule find_last_update_date_first)

theorem find_last_update_date_single_witness:
  "config_records example_session ''ORDERS'' = [[Some ''ORDERS'', Some ''2024-01-01T00:00:00'']]
   \<and> find_last_update_date example_session ''ORDERS'' =
       (Inr (Some ''2024-01-01T00:00:00''), example_session)"
proof -
  from find_last_update_date_single [of example_session example_config 0 1 "''ORDERS''"
      "[Some ''ORDERS'', Some ''2024-01-01T00:00:00'']",
      OF example_config_table(1) example_config_table(3) example_config_table(4)
         example_config_records(1)]
  show ?thesis
    by (simp add: example_config_records cell_at_def)
qed

text \<open>
  Claim C9. When the store holds more than one Configuration Record for the table name,
  \<open>find_last_update_date\<close> does not fail: it returns the \<^verbatim>\<open>silver_last_update\<close> cell of
  the first of them, in the order of the lookup's result, whatever the others hold.
\<close>

theorem find_last_update_date_duplicates:
  assumes "s CONFIG_TABLE = Some t"
    and "column_index (columns t) ''table_name'' = Some j"
    and "column_index (columns t) ''silver_last_update'' = Some i"
    and "config_records s tn = r # r' # rs"
  shows "fst (collect s (DF_select (DF_filter (DF_table CONFIG_TABLE)
                           (Col_eq ''table_name'' tn)) [''silver_last_update''])) =
           Inr ([cell_at r i] # [cell_at r' i] # map (\<lambda>x. [cell_at x i]) rs)
         \<and> find_last_update_date s tn = (Inr (cell_at r i), s)"
proof
  from run_lookup [of s t j i tn, OF assms(1) assms(2) assms(3)] assms(4)
  show "fst (collect s (DF_select (DF_filter (DF_table CONFIG_TABLE)
                           (Col_eq ''table_name'' tn)) [''silver_last_update''])) =
           Inr ([cell_at r i] # [cell_at r' i] # map (\<lambda>x. [cell_at x i]) rs)"
    by (simp add: collect_def)
  from assms show "find_last_update_date s tn = (Inr (cell_at r i), s)"
    by (rule find_last_update_date_first)
qed

theorem find_last_update_date_duplicates_witness:
  "config_records duplicated_session ''ORDERS'' =
     [[Some ''ORDERS'', Some ''2024-01-01T00:00:00''],
      [Some ''ORDERS'', Some ''2024-02-02T00:00:00'']]
   \<and> find_last_update_date duplicated_session ''ORDERS'' =
       (Inr (Some ''2024-01-01T00:00:00''), duplicated_session)"
proof -
  from find_last_update_date_duplicates [of duplicated_session duplicated_config 0 1 "''ORDERS''"
      "[Some ''ORDERS'', Some ''2024-01-01T00:00:00'']"
      "[Some ''ORDERS'', Some ''2024-02-02T00:00:00'']" "[]",
      OF example_config_table(2) example_config_table(5) example_config_table(6)
         example_config_records(3)]
  show ?thesis
    by (simp add: example_config_records cell_at_def)
qed

text \<open>
  Claim C10. When the lookup succeeds and finds no record, the \<open>ConfigError\<close> raised for
  "not found" is caught by the function's own handler: what the caller receives is a
  second \<open>ConfigError\<close>, whose message is the "Failed to retrieve last update date"
  prefix followed by the message of the first, and whose cause is the first.
\<close>

theorem not_found_error_is_wrapped:
  assumes "fst (collect s (DF_select (DF_filter (DF_table CONFIG_TABLE)
                             (Col_eq ''table_name'' tn)) [''silver_last_update''])) = Inr []"
  shows "find_last_update_date s tn =
           (Inl (Exn ConfigError
                  (''Failed to retrieve last update date for '' @ tn @ '': '' @
                   str (Exn ConfigError (''No configuration found for table '' @ tn) None))
                  (Some (Exn ConfigError (''No configuration found for table '' @ tn) None))),
            s)
         \<and> find_last_update_date s tn \<noteq>
             (Inl (Exn ConfigError (''No configuration found for table '' @ tn) None), s)"
  using find_last_update_date_empty_result [OF assms] by simp

theorem not_found_error_is_wrapped_witness:
  "fst (collect example_session (DF_select (DF_filter (DF_table CONFIG_TABLE)
          (Col_eq ''table_name'' ''CUSTOMERS'')) [''silver_last_update''])) = Inr []
   \<and> find_last_update_date example_session ''CUSTOMERS'' =
       (Inl (Exn ConfigError
          ''Failed to retrieve last update date for CUSTOMERS: No configuration found for table CUSTOMERS''
          (Some (Exn ConfigError ''No configuration found for table CUSTOMERS'' None))),
        example_session)"
proof -
  have e: "fst (collect example_session (DF_select (DF_filter (DF_table CONFIG_TABLE)
          (Col_eq ''table_name'' ''CUSTOMERS'')) [''silver_last_update''])) = Inr []"
    by (simp add: collect_def example_simps)
  from not_found_error_is_wrapped [OF e] e
  show ?thesis by simp
qed

subsection \<open>The Null-Row Filter\<close>

lemma col_counter_pos:
  "(1 \<le> col_counter t r) = (\<exists>i<length (columns t). \<not> is_na (type_at t i) (cell_at r i))"
proof -
  have "(1 \<le> col_counter t r) =
        (filter (\<lambda>i. \<not> is_na (type_at t i) (cell_at r i)) [0..<length (columns t)] \<noteq> [])"
    by (simp add: col_counter_def Suc_le_eq)
  also have "\<dots> = (\<exists>i<length (columns t). \<not> is_na (type_at t i) (cell_at r i))"
    by (auto simp add: filter_empty_conv)
  finally show ?thesis .
qed

lemma no_nan_is_na:
  assumes "no_nan t" and "r \<in> set (rows t)" and "i < length (columns t)"
  shows "is_na (type_at t i) (cell_at r i) = (cell_at r i = None)"
  using assms by (auto simp add: no_nan_def is_na_def list_all_iff)

lemma no_nan_keeps:
  assumes "no_nan t" and "r \<in> set (rows t)"
  shows "(1 \<le> col_counter t r) = (\<exists>i<length (columns t). cell_at r i \<noteq> None)"
proof -
  have "(\<exists>i<length (columns t). \<not> is_na (type_at t i) (cell_at r i)) =
        (\<exists>i<length (columns t). cell_at r i \<noteq> None)"
    by (simp add: no_nan_is_na [OF assms] cong: conj_cong)
  then show ?thesis
    by (simp only: col_counter_pos)
qed

lemma run_dropna:
  assumes "run s df = Inr t"
  shows "run s (DF_dropna_all df) = Inr (t\<lparr>rows := dropna_all t\<rparr>)"
  using assms by simp

lemma remove_null_rows_result:
  assumes "run s df = Inr t"
  shows "remove_null_rows s df =
           (Inr (DF_dropna_all df, int (length (rows t)) - int (length (dropna_all t))), s)"
  using assms run_dropna [OF assms]
  by (simp add: remove_null_rows_def count_def except_raise_from_def Let_def
        del: run.simps)

text \<open>
  Claim C7, as the code has it. On every result set that evaluates, \<open>remove_null_rows\<close>
  returns the filtered view and a count, and the count is the row count of the input
  minus the row count of the view. When the result set holds no NaN in a floating-point
  column, every row the view drops is NULL in all its columns, and every row that holds
  a value in at least one column is kept: the view is exactly the rows with a value
  somewhere.
\<close>

theorem remove_null_rows_count:
  assumes "run s delta_df = Inr t"
  shows "remove_null_rows s delta_df =
           (Inr (DF_dropna_all delta_df,
                 int (length (rows t)) - int (length (dropna_all t))), s)
         \<and> run s (DF_dropna_all delta_df) = Inr (t\<lparr>rows := dropna_all t\<rparr>)
         \<and> length (dropna_all t) \<le> length (rows t)
         \<and> (no_nan t \<longrightarrow>
              (\<forall>r\<in>set (rows t). r \<notin> set (dropna_all t) \<longrightarrow>
                   (\<forall>i<length (columns t). cell_at r i = None))
            \<and> (\<forall>r\<in>set (rows t). (\<exists>i<length (columns t). cell_at r i \<noteq> None) \<longrightarrow>
                   r \<in> set (dropna_all t))
            \<and> (columns t \<noteq> [] \<longrightarrow>
                   dropna_all t =
                   filter (\<lambda>r. \<exists>i<length (columns t). cell_at r i \<noteq> None) (rows t)))"
proof (intro conjI impI)
  show "remove_null_rows s delta_df =
           (Inr (DF_dropna_all delta_df,
                 int (length (rows t)) - int (length (dropna_all t))), s)"
    using assms by (rule remove_null_rows_result)
  show "run s (DF_dropna_all delta_df) = Inr (t\<lparr>rows := dropna_all t\<rparr>)"
    using assms by (rule run_dropna)
  show "length (dropna_all t) \<le> length (rows t)"
    by (simp add: dropna_all_def)
next
  assume nn: "no_nan t"
  show "\<forall>r\<in>set (rows t). r \<notin> set (dropna_all t) \<longrightarrow>
          (\<forall>i<length (columns t). cell_at r i = None)"
  proof (intro ballI impI)
    fix r
    assume r: "r \<in> set (rows t)" and out: "r \<notin> set (dropna_all t)"
    from out r have "columns t \<noteq> []" and "\<not> 1 \<le> col_counter t r"
      by (auto simp add: dropna_all_def split: if_splits)
    then show "\<forall>i<length (columns t). cell_at r i = None"
      using no_nan_keeps [OF nn r] by blast
  qed
  show "\<forall>r\<in>set (rows t). (\<exists>i<length (columns t). cell_at r i \<noteq> None) \<longrightarrow>
          r \<in> set (dropna_all t)"
  proof (intro ballI impI)
    fix r
    assume r: "r \<in> set (rows t)" and v: "\<exists>i<length (columns t). cell_at r i \<noteq> None"
    from v have "1 \<le> col_counter t r"
      using no_nan_keeps [OF nn r] by blast
    with r show "r \<in> set (dropna_all t)"
      by (simp add: dropna_all_def)
  qed
  show "dropna_all t =
          filter (\<lambda>r. \<exists>i<length (columns t). cell_at r i \<noteq> None) (rows t)"
    if "columns t \<noteq> []"
  proof -
    have "filter (\<lambda>r. 1 \<le> col_counter t r) (rows t) =
          filter (\<lambda>r. \<exists>i<length (columns t). cell_at r i \<noteq> None) (rows t)"
      by (rule filter_cong) (rule refl, rule no_nan_keeps [OF nn])
    with that show ?thesis
      by (simp add: dropna_all_def)
  qed
qed

text \<open>
  The staging table holds no NaN: its two rows NULL throughout are dropped, the row
  NULL in part stays.
\<close>

theorem remove_null_rows_count_witness:
  "run example_session (DF_table ''STAGING'') = Inr example_staging
   \<and> no_nan example_staging
   \<and> remove_null_rows example_session (DF_table ''STAGING'') =
       (Inr (DF_dropna_all (DF_table ''STAGING''), 2), example_session)
   \<and> run example_session (DF_dropna_all (DF_table ''STAGING'')) =
       Inr \<lparr>columns = [''order_id'', ''current_timestamp''], types = [LongType, TimestampType],
            rows = [[Some ''7'', None]]\<rparr>"
proof -
  have r: "run example_session (DF_table ''STAGING'') = Inr example_staging"
    by (simp add: example_session_def CONFIG_TABLE_def)
  have n: "no_nan example_staging"
    by (simp add: no_nan_def example_staging_def type_at_def)
  have d: "dropna_all example_staging = [[Some ''7'', None]]"
    by (simp add: dropna_all_def col_counter_def is_na_def example_staging_def cell_at_def
          type_at_def)
  have len: "int (length (rows example_staging)) - int (length (dropna_all example_staging)) = 2"
    by (simp add: d) (simp add: example_staging_def)
  have t': "example_staging\<lparr>rows := dropna_all example_staging\<rparr> =
      \<lparr>columns = [''order_id'', ''current_timestamp''], types = [LongType, TimestampType],
       rows = [[Some ''7'', None]]\<rparr>"
    by (simp add: d) (simp add: example_staging_def)
  note th = remove_null_rows_count [OF r]
  have a: "remove_null_rows example_session (DF_table ''STAGING'') =
       (Inr (DF_dropna_all (DF_table ''STAGING''),
             int (length (rows example_staging)) - int (length (dropna_all example_staging))),
        example_session)"
    using th by (rule conjunct1)
  have b: "run example_session (DF_dropna_all (DF_table ''STAGING'')) =
       Inr (example_staging\<lparr>rows := dropna_all example_staging\<rparr>)"
    using th by blast
  from a b r n show ?thesis
    by (simp only: len t' simp_thms)
qed

text \<open>
  The readings table: its first row holds a value, the NaN of the \<^verbatim>\<open>DOUBLE\<close> column,
  and is dropped together with the row that is NULL throughout; two rows are counted
  as removed.
\<close>

theorem remove_null_rows_count_counterexample:
  "run readings_session (DF_table ''READINGS'') = Inr example_readings
   \<and> rows example_readings = [[None, Some ''NaN''], [None, None], [Some ''s1'', Some ''NaN'']]
   \<and> cell_at [None, Some ''NaN''] 1 = Some ''NaN''
   \<and> remove_null_rows readings_session (DF_table ''READINGS'') =
       (Inr (DF_dropna_all (DF_table ''READINGS''), 2), readings_session)
   \<and> run readings_session (DF_dropna_all (DF_table ''READINGS'')) =
       Inr \<lparr>columns = [''sensor'', ''reading''], types = [StringType, DoubleType],
            rows = [[Some ''s1'', Some ''NaN'']]\<rparr>"
  by (simp add: remove_null_rows_def count_def except_raise_from_def dropna_all_def
        col_counter_def is_na_def NaN_def readings_session_def example_readings_def
        cell_at_def type_at_def)

subsection \<open>The Type Classifier\<close>

text \<open>
  Claim C8. \<open>is_simple_type\<close> is a total predicate on type descriptors, with no outcome
  but a truth value: it is true exactly when the descriptor is neither a mapping type,
  nor an array type, nor a struct type.
\<close>

theorem is_simple_type_iff:
  "is_simple_type d \<longleftrightarrow>
     (\<forall>k v. d \<noteq> MapType k v) \<and> (\<forall>e. d \<noteq> ArrayType e) \<and> (\<forall>fs. d \<noteq> StructType fs)"
  by (cases d) (simp_all add: is_simple_type_def isinstance_def)

theorem is_simple_type_iff_witness:
  "is_simple_type IntegerType \<and> is_simple_type StringType \<and> is_simple_type TimestampType
   \<and> \<not> is_simple_type (MapType StringType IntegerType)
   \<and> \<not> is_simple_type (ArrayType StringType)
   \<and> \<not> is_simple_type (StructType [(''id'', IntegerType)])"
  using is_simple_type_iff [of IntegerType] is_simple_type_iff [of StringType]
    is_simple_type_iff [of TimestampType]
    is_simple_type_iff [of "MapType StringType IntegerType"]
    is_simple_type_iff [of "ArrayType StringType"]
    is_simple_type_iff [of "StructType [(''id'', IntegerType)]"]
  by simp

subsection \<open>The Watermark Writer\<close>

text \<open>
  For plain values the pasted text is the update the module means: the literal of the
  timestamp in the \<^verbatim>\<open>SET\<close> clause, the literal of the table name in the condition.
\<close>

lemma lex_literal:
  "plain v \<Longrightarrow> lex_from (L_string w) (v @ CHR 0x27 # rest) = lex_from (L_quote (w @ v)) rest"
  by (induction v arbitrary: w) (auto simp add: plain_def quote_def backslash_def)

lemma lex_update_text:
  assumes "plain tn" and "plain ts"
  shows "lex (update_text tn ts) =
           Some [T_ident ''UPDATE'', T_ident CONFIG_TABLE, T_ident ''SET'',
                 T_ident ''silver_last_update'', T_eq, T_string ts,
                 T_ident ''WHERE'', T_ident ''table_name'', T_eq, T_string tn]"
  using assms
  by (simp add: lex_def update_text_def CONFIG_TABLE_def lex_simps lex_literal)

lemma parse_update_text:
  "parse_update [T_ident ''UPDATE'', T_ident tbl, T_ident ''SET'',
                 T_ident c, T_eq, T_string ts,
                 T_ident ''WHERE'', T_ident d, T_eq, T_string tn] =
     Some (Update tbl c [Lit ts] d [Lit tn])"
  by (simp add: reserved_words_def)

lemma sql_collect_update_text:
  assumes "plain tn" and "plain ts"
  shows "sql_collect s (update_text tn ts) =
           execute s (Update CONFIG_TABLE ''silver_last_update'' [Lit ts] ''table_name'' [Lit tn])"
  by (simp add: sql_collect_def lex_update_text [OF assms] parse_update_text
        del: parse_update.simps)

lemma set_where_idem: "set_where i v j k (set_where i v j k r) = set_where i v j k r"
  by (simp add: set_where_def)

lemma set_where_comp: "set_where i v j k \<circ> set_where i v j k = set_where i v j k"
  by (rule ext) (simp add: set_where_idem)

lemma set_where_no_match:
  assumes "filter (\<lambda>r. cell_at r j = Some k) rs = []"
  shows "map (set_where i v j k) rs = rs"
  using assms by (induction rs) (auto simp add: set_where_def split: if_splits)

lemma matches_literal: "matches cols j [Lit k] = (\<lambda>r. cell_at r j = Some k)"
proof (rule ext)
  fix r
  show "matches cols j [Lit k] r = (cell_at r j = Some k)"
    by (cases "cell_at r j") (auto simp add: matches_def)
qed

lemma update_row_literals:
  "(\<lambda>r. if cell_at r j = Some k then r[i := eval_expr cols r [Lit v]] else r) =
   set_where i v j k"
  by (rule ext) (simp add: set_where_def)

lemma execute_literals:
  "execute s (Update tbl c [Lit v] d [Lit k]) =
     (case s tbl of
        None \<Rightarrow> (Inl (sql_error (''Object '' @ tbl @ '' does not exist or not authorized.'')), s)
      | Some t \<Rightarrow>
          (case column_index (columns t) c of
             None \<Rightarrow> (Inl (sql_error (''invalid identifier '' @ c)), s)
           | Some i \<Rightarrow>
               (case column_index (columns t) d of
                  None \<Rightarrow> (Inl (sql_error (''invalid identifier '' @ d)), s)
                | Some j \<Rightarrow>
                    (Inr (length (filter (\<lambda>r. cell_at r j = Some k) (rows t))),
                     s(tbl \<mapsto> t\<lparr>rows := map (set_where i v j k) (rows t)\<rparr>)))))"
  by (simp add: execute.simps matches_literal update_row_literals split: option.splits)

lemma execute_literals_twice:
  "snd (execute (snd (execute s (Update tbl c [Lit v] d [Lit k])))
          (Update tbl c [Lit v] d [Lit k])) =
   snd (execute s (Update tbl c [Lit v] d [Lit k]))"
  by (simp add: execute_literals set_where_comp split: option.splits)

lemma execute_literals_outcome:
  "fst (execute (snd (execute s (Update tbl c [Lit v] d [Lit k])))
          (Update tbl c [Lit v] d [Lit k])) = Inl e
   \<longleftrightarrow> fst (execute s (Update tbl c [Lit v] d [Lit k])) = Inl e"
  by (simp add: execute_literals split: option.splits)

lemma update_config_plain:
  assumes "plain tn" and "plain ts"
  shows "update_config s tn ts =
     (case execute s (Update CONFIG_TABLE ''silver_last_update'' [Lit ts] ''table_name'' [Lit tn]) of
        (r, s') \<Rightarrow>
          (except_raise_from ConfigError (''Failed to update configuration for '' @ tn @ '': '')
             (case r of Inl e \<Rightarrow> Inl e | Inr n \<Rightarrow> Inr ()), s'))"
  by (simp add: update_config_def sql_collect_update_text [OF assms])

lemma execute_no_match:
  assumes "config_records s k = []"
  shows "snd (execute s (Update CONFIG_TABLE c [Lit v] ''table_name'' [Lit k])) = s
       \<and> (\<forall>n. fst (execute s (Update CONFIG_TABLE c [Lit v] ''table_name'' [Lit k])) = Inr n
              \<longrightarrow> n = 0)"
proof (cases "s CONFIG_TABLE")
  case None
  then show ?thesis
    by (simp add: execute_literals)
next
  case (Some t)
  show ?thesis
  proof (cases "column_index (columns t) ''table_name''")
    case None
    with Some show ?thesis
      by (simp add: execute_literals split: option.splits)
  next
    case (Some j)
    with \<open>s CONFIG_TABLE = Some t\<close> assms
    have none: "filter (\<lambda>r. cell_at r j = Some k) (rows t) = []"
      by (simp add: config_records_def)
    have "s(CONFIG_TABLE \<mapsto> t\<lparr>rows := map (set_where i v j k) (rows t)\<rparr>) = s" for i
      using \<open>s CONFIG_TABLE = Some t\<close>
      by (simp add: set_where_no_match [OF none] map_upd_triv)
    with Some \<open>s CONFIG_TABLE = Some t\<close> none show ?thesis
      by (simp add: execute_literals split: option.splits)
  qed
qed

lemma execute_store_present:
  assumes "s CONFIG_TABLE = Some t"
    and "column_index (columns t) ''silver_last_update'' = Some i"
    and "column_index (columns t) ''table_name'' = Some j"
  shows "\<exists>n. fst (execute s (Update CONFIG_TABLE ''silver_last_update'' [Lit v]
                      ''table_name'' [Lit k])) = Inr n"
  using assms by (simp add: execute_literals)

lemma plain_examples:
  "plain ''ORDERS''" "plain ''CUSTOMERS''" "plain ''2024-01-03''"
  by (simp_all add: plain_def quote_def backslash_def)

text \<open>
  Claim C5, as the code has it. For a table name and a timestamp that are plain (no
  quote, no backslash), running \<open>update_config\<close> a second time with the same values gives
  the outcome and the session of the first run: the store is as it was after one run.
\<close>

theorem update_config_idempotent:
  assumes "plain tn" and "plain ts"
  shows "update_config (snd (update_config s tn ts)) tn ts = update_config s tn ts"
proof -
  let ?u = "Update CONFIG_TABLE ''silver_last_update'' [Lit ts] ''table_name'' [Lit tn]"
  obtain r s' where 1: "execute s ?u = (r, s')"
    by (cases "execute s ?u")
  obtain r' s'' where 2: "execute s' ?u = (r', s'')"
    by (cases "execute s' ?u")
  from execute_literals_twice [of s CONFIG_TABLE "''silver_last_update''" ts "''table_name''" tn]
    1 2
  have st: "s'' = s'"
    by simp
  from execute_literals_outcome [of s CONFIG_TABLE "''silver_last_update''" ts "''table_name''" tn]
    1 2
  have oc: "\<And>e. r' = Inl e \<longleftrightarrow> r = Inl e"
    by simp
  have "(case r' of Inl e \<Rightarrow> Inl e | Inr n \<Rightarrow> Inr ()) =
        (case r of Inl e \<Rightarrow> (Inl e :: exn + unit) | Inr n \<Rightarrow> Inr ())"
    using oc by (cases r; cases r') auto
  then show ?thesis
    by (simp add: update_config_plain [OF assms] 1 2 st)
qed

theorem update_config_idempotent_witness:
  "plain ''ORDERS'' \<and> plain ''2024-01-03''
   \<and> update_config (snd (update_config example_session ''ORDERS'' ''2024-01-03''))
         ''ORDERS'' ''2024-01-03'' =
       update_config example_session ''ORDERS'' ''2024-01-03''
   \<and> snd (update_config example_session ''ORDERS'' ''2024-01-03'') CONFIG_TABLE =
       Some \<lparr>columns = [''table_name'', ''silver_last_update''], types = [StringType, StringType],
             rows = [[Some ''ORDERS'', Some ''2024-01-03'']]\<rparr>"
proof -
  have "snd (update_config example_session ''ORDERS'' ''2024-01-03'') CONFIG_TABLE =
       Some \<lparr>columns = [''table_name'', ''silver_last_update''], types = [StringType, StringType],
             rows = [[Some ''ORDERS'', Some ''2024-01-03'']]\<rparr>"
    by (simp add: update_config_plain [OF plain_examples(1) plain_examples(3)]
          execute_literals set_where_def example_simps)
  with update_config_idempotent [OF plain_examples(1) plain_examples(3), of example_session]
  show ?thesis
    by (simp only: plain_examples simp_thms)
qed

text \<open>
  A timestamp value with quotes in it: the pasted text sets the column to
  \<^verbatim>\<open>'x' || silver_last_update || ''\<close>, and each run puts one more \<^verbatim>\<open>x\<close> in front
  of the stored value.
\<close>

theorem update_config_idempotent_counterexample:
  "snd (update_config example_session ''ORDERS''
          (''x'' @ [CHR 0x27] @ '' || silver_last_update || '' @ [CHR 0x27])) CONFIG_TABLE =
     Some \<lparr>columns = [''table_name'', ''silver_last_update''], types = [StringType, StringType],
           rows = [[Some ''ORDERS'', Some ''x2024-01-01T00:00:00'']]\<rparr>
   \<and> snd (update_config
           (snd (update_config example_session ''ORDERS''
              (''x'' @ [CHR 0x27] @ '' || silver_last_update || '' @ [CHR 0x27])))
           ''ORDERS'' (''x'' @ [CHR 0x27] @ '' || silver_last_update || '' @ [CHR 0x27]))
         CONFIG_TABLE =
     Some \<lparr>columns = [''table_name'', ''silver_last_update''], types = [StringType, StringType],
           rows = [[Some ''ORDERS'', Some ''xx2024-01-01T00:00:00'']]\<rparr>
   \<and> snd (update_config
           (snd (update_config example_session ''ORDERS''
              (''x'' @ [CHR 0x27] @ '' || silver_last_update || '' @ [CHR 0x27])))
           ''ORDERS'' (''x'' @ [CHR 0x27] @ '' || silver_last_update || '' @ [CHR 0x27])) \<noteq>
       snd (update_config example_session ''ORDERS''
              (''x'' @ [CHR 0x27] @ '' || silver_last_update || '' @ [CHR 0x27]))"
proof -
  let ?ts = "''x'' @ [CHR 0x27] @ '' || silver_last_update || '' @ [CHR 0x27]"
  have once: "snd (update_config example_session ''ORDERS'' ?ts) CONFIG_TABLE =
     Some \<lparr>columns = [''table_name'', ''silver_last_update''], types = [StringType, StringType],
           rows = [[Some ''ORDERS'', Some ''x2024-01-01T00:00:00'']]\<rparr>"
    by (simp add: update_config_def sql_collect_def lex_def update_text_def
          lex_simps reserved_words_def execute.simps matches_def except_raise_from_def
          example_simps)
  have twice: "snd (update_config (snd (update_config example_session ''ORDERS'' ?ts))
                 ''ORDERS'' ?ts) CONFIG_TABLE =
     Some \<lparr>columns = [''table_name'', ''silver_last_update''], types = [StringType, StringType],
           rows = [[Some ''ORDERS'', Some ''xx2024-01-01T00:00:00'']]\<rparr>"
    by (simp add: update_config_def sql_collect_def lex_def update_text_def
          lex_simps reserved_words_def execute.simps matches_def except_raise_from_def
          example_simps)
  have "snd (update_config (snd (update_config example_session ''ORDERS'' ?ts))
               ''ORDERS'' ?ts) CONFIG_TABLE \<noteq>
        snd (update_config example_session ''ORDERS'' ?ts) CONFIG_TABLE"
    unfolding once twice by simp
  then have "snd (update_config (snd (update_config example_session ''ORDERS'' ?ts))
               ''ORDERS'' ?ts) \<noteq>
        snd (update_config example_session ''ORDERS'' ?ts)"
    by auto
  with once twice show ?thesis
    by simp
qed

text \<open>
  Claim C6, as the code has it. For a plain table name with no Configuration Record and
  a plain timestamp: \<open>update_config\<close> leaves the store as it was; it completes exactly
  when the statement executes, and then the statement reports zero rows; an error it
  returns is a \<open>ConfigError\<close> around the failure of the statement; and when the store is
  there with both of its columns, it completes.
\<close>

theorem update_config_no_match:
  assumes "plain tn" and "plain ts" and "config_records s tn = []"
  shows "snd (update_config s tn ts) = s
       \<and> (fst (update_config s tn ts) = Inr () \<longleftrightarrow>
            (\<exists>n. fst (sql_collect s (update_text tn ts)) = Inr n))
       \<and> (\<forall>n. fst (sql_collect s (update_text tn ts)) = Inr n \<longrightarrow> n = 0)
       \<and> (\<forall>e. fst (update_config s tn ts) = Inl e \<longrightarrow>
            (\<exists>e0. fst (sql_collect s (update_text tn ts)) = Inl e0 \<and>
               e = Exn ConfigError
                     (''Failed to update configuration for '' @ tn @ '': '' @ str e0)
                     (Some e0)))
       \<and> ((\<exists>t i j. s CONFIG_TABLE = Some t
              \<and> column_index (columns t) ''silver_last_update'' = Some i
              \<and> column_index (columns t) ''table_name'' = Some j) \<longrightarrow>
            update_config s tn ts = (Inr (), s))"
proof -
  let ?u = "Update CONFIG_TABLE ''silver_last_update'' [Lit ts] ''table_name'' [Lit tn]"
  have sc: "sql_collect s (update_text tn ts) = execute s ?u"
    using assms(1,2) by (rule sql_collect_update_text)
  obtain r s' where ex: "execute s ?u = (r, s')"
    by (cases "execute s ?u")
  from execute_no_match [OF assms(3), of "''silver_last_update''" ts] ex
  have s': "s' = s" and zero: "\<And>n. r = Inr n \<Longrightarrow> n = 0"
    by simp_all
  have uc: "update_config s tn ts =
      (except_raise_from ConfigError (''Failed to update configuration for '' @ tn @ '': '')
         (case r of Inl e \<Rightarrow> Inl e | Inr n \<Rightarrow> Inr ()), s)"
    by (simp add: update_config_def sc ex s')
  have present: "update_config s tn ts = (Inr (), s)"
    if "\<exists>t i j. s CONFIG_TABLE = Some t
              \<and> column_index (columns t) ''silver_last_update'' = Some i
              \<and> column_index (columns t) ''table_name'' = Some j"
  proof -
    from that obtain t i j where st: "s CONFIG_TABLE = Some t"
      and ci: "column_index (columns t) ''silver_last_update'' = Some i"
      and cj: "column_index (columns t) ''table_name'' = Some j"
      by blast
    from execute_store_present [of s t i j ts tn, OF st ci cj] ex
    obtain n where "r = Inr n"
      by auto
    then show ?thesis
      by (simp add: uc except_raise_from_def)
  qed
  show ?thesis
  proof (intro conjI allI impI)
    show "snd (update_config s tn ts) = s"
      by (simp add: uc)
    show "fst (update_config s tn ts) = Inr () \<longleftrightarrow>
            (\<exists>n. fst (sql_collect s (update_text tn ts)) = Inr n)"
      by (cases r) (simp_all add: uc sc ex except_raise_from_def)
    show "n = 0" if "fst (sql_collect s (update_text tn ts)) = Inr n" for n
      using that zero by (simp add: sc ex)
    show "\<exists>e0. fst (sql_collect s (update_text tn ts)) = Inl e0 \<and>
               e = Exn ConfigError
                     (''Failed to update configuration for '' @ tn @ '': '' @ str e0)
                     (Some e0)"
      if "fst (update_config s tn ts) = Inl e" for e
      using that by (cases r) (auto simp add: uc sc ex except_raise_from_def)
    show "update_config s tn ts = (Inr (), s)"
      if "\<exists>t i j. s CONFIG_TABLE = Some t
              \<and> column_index (columns t) ''silver_last_update'' = Some i
              \<and> column_index (columns t) ''table_name'' = Some j"
      using that by (rule present)
  qed
qed

text \<open>
  No record for \<^verbatim>\<open>CUSTOMERS\<close>: the update completes, reports zero rows and changes
  nothing. In a session without the store the statement fails, and the error is a
  \<open>ConfigError\<close>.
\<close>

theorem update_config_no_match_witness:
  "plain ''CUSTOMERS'' \<and> plain ''2024-01-03''
   \<and> config_records example_session ''CUSTOMERS'' = []
   \<and> update_config example_session ''CUSTOMERS'' ''2024-01-03'' = (Inr (), example_session)
   \<and> fst (sql_collect example_session (update_text ''CUSTOMERS'' ''2024-01-03'')) = Inr 0
   \<and> config_records Map.empty ''CUSTOMERS'' = []
   \<and> fst (update_config Map.empty ''CUSTOMERS'' ''2024-01-03'') =
       Inl (Exn ConfigError
              (''Failed to update configuration for CUSTOMERS: '' @
               ''Object UTILS.CONFIG.DEV_CONFIG_TABLES does not exist or not authorized.'')
              (Some (sql_error
                 ''Object UTILS.CONFIG.DEV_CONFIG_TABLES does not exist or not authorized.'')))"
proof -
  have p: "\<exists>t i j. example_session CONFIG_TABLE = Some t
              \<and> column_index (columns t) ''silver_last_update'' = Some i
              \<and> column_index (columns t) ''table_name'' = Some j"
    using example_config_table(1) example_config_table(3) example_config_table(4)
    by blast
  have e: "\<exists>n. fst (sql_collect example_session (update_text ''CUSTOMERS'' ''2024-01-03'')) = Inr n"
    using execute_store_present [of example_session example_config 1 0 "''2024-01-03''"
        "''CUSTOMERS''", OF example_config_table(1) example_config_table(4)
        example_config_table(3)]
    by (simp add: sql_collect_update_text [OF plain_examples(2) plain_examples(3)])
  have m: "config_records Map.empty ''CUSTOMERS'' = []"
    by (simp add: config_records_def)
  have f: "fst (sql_collect Map.empty (update_text ''CUSTOMERS'' ''2024-01-03'')) =
       Inl (sql_error ''Object UTILS.CONFIG.DEV_CONFIG_TABLES does not exist or not authorized.'')"
    by (simp add: sql_collect_update_text [OF plain_examples(2) plain_examples(3)]
          execute_literals CONFIG_TABLE_def)
  from update_config_no_match [OF plain_examples(2) plain_examples(3)
      example_config_records(2)] p e
  have a: "update_config example_session ''CUSTOMERS'' ''2024-01-03'' = (Inr (), example_session)
        \<and> fst (sql_collect example_session (update_text ''CUSTOMERS'' ''2024-01-03'')) = Inr 0"
    by auto
  have "\<exists>e. fst (update_config Map.empty ''CUSTOMERS'' ''2024-01-03'') = Inl e"
    using update_config_no_match [OF plain_examples(2) plain_examples(3) m] f
    by (cases "fst (update_config Map.empty ''CUSTOMERS'' ''2024-01-03'')") auto
  then obtain e1 where e1: "fst (update_config Map.empty ''CUSTOMERS'' ''2024-01-03'') = Inl e1" ..
  with update_config_no_match [OF plain_examples(2) plain_examples(3) m] f
  have b: "fst (update_config Map.empty ''CUSTOMERS'' ''2024-01-03'') =
       Inl (Exn ConfigError
              (''Failed to update configuration for CUSTOMERS: '' @
               ''Object UTILS.CONFIG.DEV_CONFIG_TABLES does not exist or not authorized.'')
              (Some (sql_error
                 ''Object UTILS.CONFIG.DEV_CONFIG_TABLES does not exist or not authorized.'')))"
    by (auto simp add: sql_error_def)
  from a b m show ?thesis
    by (simp only: plain_examples example_config_records simp_thms)
qed

text \<open>
  A table name with quotes in it. No record has this name, and yet the pasted condition
  reads \<^verbatim>\<open>table_name = '' || 'ORDERS'\<close>: the statement executes, reports one row and
  overwrites the watermark of \<^verbatim>\<open>ORDERS\<close>.
\<close>

theorem update_config_no_match_counterexample:
  "config_records example_session ([CHR 0x27] @ '' || '' @ [CHR 0x27] @ ''ORDERS'') = []
   \<and> fst (sql_collect example_session
         (update_text ([CHR 0x27] @ '' || '' @ [CHR 0x27] @ ''ORDERS'') ''2024-01-03'')) = Inr 1
   \<and> fst (update_config example_session ([CHR 0x27] @ '' || '' @ [CHR 0x27] @ ''ORDERS'')
         ''2024-01-03'') = Inr ()
   \<and> example_session CONFIG_TABLE =
        Some \<lparr>columns = [''table_name'', ''silver_last_update''], types = [StringType, StringType],
              rows = [[Some ''ORDERS'', Some ''2024-01-01T00:00:00'']]\<rparr>
   \<and> snd (update_config example_session ([CHR 0x27] @ '' || '' @ [CHR 0x27] @ ''ORDERS'')
         ''2024-01-03'') CONFIG_TABLE =
        Some \<lparr>columns = [''table_name'', ''silver_last_update''], types = [StringType, StringType],
              rows = [[Some ''ORDERS'', Some ''2024-01-03'']]\<rparr>
   \<and> snd (update_config example_session ([CHR 0x27] @ '' || '' @ [CHR 0x27] @ ''ORDERS'')
         ''2024-01-03'') \<noteq> example_session"
proof -
  let ?tn = "[CHR 0x27] @ '' || '' @ [CHR 0x27] @ ''ORDERS''"
  have none: "config_records example_session ?tn = []"
    by (simp add: config_records_def example_simps)
  have one: "fst (sql_collect example_session (update_text ?tn ''2024-01-03'')) = Inr 1"
    by (simp add: sql_collect_def lex_def update_text_def lex_simps reserved_words_def
          execute.simps matches_def example_simps)
  have ok: "fst (update_config example_session ?tn ''2024-01-03'') = Inr ()"
    by (simp add: update_config_def sql_collect_def lex_def update_text_def
          lex_simps reserved_words_def execute.simps matches_def except_raise_from_def
          example_simps)
  have before: "example_session CONFIG_TABLE =
        Some \<lparr>columns = [''table_name'', ''silver_last_update''], types = [StringType, StringType],
              rows = [[Some ''ORDERS'', Some ''2024-01-01T00:00:00'']]\<rparr>"
    by (simp add: example_simps)
  have after: "snd (update_config example_session ?tn ''2024-01-03'') CONFIG_TABLE =
        Some \<lparr>columns = [''table_name'', ''silver_last_update''], types = [StringType, StringType],
              rows = [[Some ''ORDERS'', Some ''2024-01-03'']]\<rparr>"
    by (simp add: update_config_def sql_collect_def lex_def update_text_def
          lex_simps reserved_words_def execute.simps matches_def except_raise_from_def
          example_simps)
  have "snd (update_config example_session ?tn ''2024-01-03'') CONFIG_TABLE \<noteq>
        example_session CONFIG_TABLE"
    unfolding before after by simp
  then have "snd (update_config example_session ?tn ''2024-01-03'') \<noteq> example_session"
    by auto
  with none one ok before after show ?thesis
    by simp
qed

subsection \<open>The cycle of one run\<close>

text \<open>
  The four steps on the example session, in the order a caller runs them: the watermark
  of \<^verbatim>\<open>ORDERS\<close> is read, three rows are newer, the latest of them is of
  \<^verbatim>\<open>2024-01-03\<close>, and that becomes the stored watermark.
\<close>

lemma one_cycle:
  "fst (find_last_update_date example_session ''ORDERS'') = Inr (Some ''2024-01-01T00:00:00'')"
  "fst (find_delta example_session ''ORDERS'' ''2024-01-01T00:00:00'') =
     Inr (DF_filter (DF_table ''ORDERS'') (Col_gt TIMESTAMP_FIELD ''2024-01-01T00:00:00''), 3)"
  "fst (find_latest_timestamp example_session
          (DF_filter (DF_table ''ORDERS'') (Col_gt TIMESTAMP_FIELD ''2024-01-01T00:00:00''))) =
     Inr (Some ''2024-01-03'')"
  "config_records (snd (update_config example_session ''ORDERS'' ''2024-01-03'')) ''ORDERS'' =
     [[Some ''ORDERS'', Some ''2024-01-03'']]"
proof -
  show "fst (find_last_update_date example_session ''ORDERS'') =
          Inr (Some ''2024-01-01T00:00:00'')"
    by (simp add: find_last_update_date_def collect_def except_raise_from_def
          list_getitem_def row_getitem_def example_simps)
  show "fst (find_delta example_session ''ORDERS'' ''2024-01-01T00:00:00'') =
     Inr (DF_filter (DF_table ''ORDERS'') (Col_gt TIMESTAMP_FIELD ''2024-01-01T00:00:00''), 3)"
    by (simp add: find_delta_def count_def except_raise_from_def example_simps)
  show "fst (find_latest_timestamp example_session
          (DF_filter (DF_table ''ORDERS'') (Col_gt TIMESTAMP_FIELD ''2024-01-01T00:00:00''))) =
     Inr (Some ''2024-01-03'')"
    by (simp add: find_latest_timestamp_def collect_def except_raise_from_def
          list_getitem_def row_getitem_def example_simps)
  show "config_records (snd (update_config example_session ''ORDERS'' ''2024-01-03'')) ''ORDERS'' =
     [[Some ''ORDERS'', Some ''2024-01-03'']]"
    by (simp add: update_config_plain [OF plain_examples(1) plain_examples(3)]
          execute_literals set_where_def config_records_def example_simps)
qed

end
